theory Spec2Isabelle
  imports Main
begin

section \<open>JavaScript values of the Labels control\<close>

text \<open>
  The development embeds \<^verbatim>\<open>src/tags/control/Labels/Labels.js\<close>. Strings are lists of
  8-bit characters, read as the code units below 256 of JavaScript strings (ASCII and
  Latin-1); numbers used as label ids are integers. A property read on \<^verbatim>\<open>null\<close> raises
  \<^verbatim>\<open>TypeError\<close>, which is a value of the model.
\<close>

datatype error = TypeError

text \<open>A label id is a number (as in \<^verbatim>\<open>dummyData\<close>) or a string.\<close>

datatype ident = IdNum int | IdStr string

text \<open>
  An entry \<^verbatim>\<open>{ id, value }\<close>, as held in \<^verbatim>\<open>dummyData\<close>,
  \<^verbatim>\<open>labelOptions\<close> and \<^verbatim>\<open>labelsData\<close>. The value \<^verbatim>\<open>null\<close> (the value
  of the empty label made by \<^verbatim>\<open>afterCreate\<close>) is \<open>None\<close>.
\<close>

record item =
  item_id :: ident
  item_value :: "string option"

text \<open>
  What \<^verbatim>\<open>labelsSelection\<close> can hold: a string, or a reference to the function
  \<^verbatim>\<open>String.prototype.toLowerCase\<close> (line 243 reads the property
  \<^verbatim>\<open>i.value.toLowerCase\<close> and does not call it).
\<close>

datatype jsval = JStr string | JFun_toLowerCase

subsection \<open>Number and string conversions\<close>

definition digit_char :: "nat \<Rightarrow> char" where
  "digit_char d = ''0123456789'' ! d"

function string_of_nat :: "nat \<Rightarrow> string" where
  "string_of_nat n =
     (if n < 10 then [digit_char n] else string_of_nat (n div 10) @ [digit_char (n mod 10)])"
  by pat_completeness auto
termination
  by (relation "measure (\<lambda>n. n)") auto

declare string_of_nat.simps [simp del]

text \<open>
  \<^verbatim>\<open>ToString\<close> of an integer id, as a template literal applies it: the decimal
  digits, which is what JavaScript writes for integers of fewer than 22 digits.
\<close>

definition string_of_int :: "int \<Rightarrow> string" where
  "string_of_int i = (if i < 0 then CHR ''-'' # string_of_nat (nat (- i)) else string_of_nat (nat i))"

fun toString_ident :: "ident \<Rightarrow> string" where
  "toString_ident (IdNum i) = string_of_int i"
| "toString_ident (IdStr s) = s"

text \<open>\<^verbatim>\<open>ToString\<close> of a value that is a string or \<^verbatim>\<open>null\<close>.\<close>

fun toString_value :: "string option \<Rightarrow> string" where
  "toString_value None = ''null''"
| "toString_value (Some s) = s"

text \<open>
  The letters that \<^verbatim>\<open>toLowerCase\<close> changes among the code units below 256: the
  capitals of ASCII and those of Latin-1 (the multiplication sign between them is no
  letter).
\<close>

definition upper_letters :: string where
  "upper_letters =
     ''ABCDEFGHIJKLMNOPQRSTUVWXYZ'' @
     [CHR 0xC0, CHR 0xC1, CHR 0xC2, CHR 0xC3, CHR 0xC4, CHR 0xC5, CHR 0xC6, CHR 0xC7,
      CHR 0xC8, CHR 0xC9, CHR 0xCA, CHR 0xCB, CHR 0xCC, CHR 0xCD, CHR 0xCE, CHR 0xCF,
      CHR 0xD0, CHR 0xD1, CHR 0xD2, CHR 0xD3, CHR 0xD4, CHR 0xD5, CHR 0xD6, CHR 0xD8,
      CHR 0xD9, CHR 0xDA, CHR 0xDB, CHR 0xDC, CHR 0xDD, CHR 0xDE]"

definition lower_letters :: string where
  "lower_letters =
     ''abcdefghijklmnopqrstuvwxyz'' @
     [CHR 0xE0, CHR 0xE1, CHR 0xE2, CHR 0xE3, CHR 0xE4, CHR 0xE5, CHR 0xE6, CHR 0xE7,
      CHR 0xE8, CHR 0xE9, CHR 0xEA, CHR 0xEB, CHR 0xEC, CHR 0xED, CHR 0xEE, CHR 0xEF,
      CHR 0xF0, CHR 0xF1, CHR 0xF2, CHR 0xF3, CHR 0xF4, CHR 0xF5, CHR 0xF6, CHR 0xF8,
      CHR 0xF9, CHR 0xFA, CHR 0xFB, CHR 0xFC, CHR 0xFD, CHR 0xFE]"

definition toLowerChar :: "char \<Rightarrow> char" where
  "toLowerChar c =
     (case map_of (zip upper_letters lower_letters) c of
        Some d \<Rightarrow> d
      | None \<Rightarrow> c)"

definition toLowerCase :: "string \<Rightarrow> string" where
  "toLowerCase s = map toLowerChar s"

text \<open>\<^verbatim>\<open>itm.value.toLowerCase()\<close>: raises when the value is \<^verbatim>\<open>null\<close>.\<close>

definition value_toLowerCase :: "item \<Rightarrow> error + string" where
  "value_toLowerCase itm =
     (case item_value itm of None \<Rightarrow> Inl TypeError | Some v \<Rightarrow> Inr (toLowerCase v))"

text \<open>\<^verbatim>\<open>s === x\<close> for a string \<open>s\<close>: a function is never equal to a string.\<close>

fun strict_equals :: "string \<Rightarrow> jsval \<Rightarrow> bool" where
  "strict_equals s (JStr t) = (s = t)"
| "strict_equals s JFun_toLowerCase = False"

text \<open>\<^verbatim>\<open>Array.prototype.find\<close> with a predicate that may raise.\<close>

fun find_js :: "('a \<Rightarrow> error + bool) \<Rightarrow> 'a list \<Rightarrow> error + 'a option" where
  "find_js p [] = Inr None"
| "find_js p (x # xs) =
     (case p x of
        Inl e \<Rightarrow> Inl e
      | Inr b \<Rightarrow> if b then Inr (Some x) else find_js p xs)"

section \<open>The hard-coded catalog\<close>

definition dummyData :: "item list" where
  "dummyData =
     [\<lparr>item_id = IdNum 1, item_value = Some ''air_squat.down''\<rparr>,
      \<lparr>item_id = IdNum 2, item_value = Some ''air_squat.up''\<rparr>,
      \<lparr>item_id = IdNum 3, item_value = Some ''push_press.down''\<rparr>,
      \<lparr>item_id = IdNum 4, item_value = Some ''push_press.up''\<rparr>,
      \<lparr>item_id = IdNum 5, item_value = Some ''power_clean.up''\<rparr>,
      \<lparr>item_id = IdNum 6, item_value = Some ''power_clean.down''\<rparr>]"

section \<open>Resolving the pending selection\<close>

text \<open>
  The predicate of line 290,
  \<^verbatim>\<open>itm => itm.value.toLowerCase() === labelsSelection[i]\<close>.
\<close>

definition matches_key :: "jsval \<Rightarrow> item \<Rightarrow> error + bool" where
  "matches_key k itm =
     (case value_toLowerCase itm of Inl e \<Rightarrow> Inl e | Inr v \<Rightarrow> Inr (strict_equals v k))"

text \<open>
  The loop of lines 288 to 293 of \<^verbatim>\<open>handleApplySelection\<close>, with the index \<open>i\<close> and the
  array \<open>labels\<close> built so far.
\<close>

function resolve_loop :: "jsval list \<Rightarrow> nat \<Rightarrow> item list \<Rightarrow> error + item list" where
  "resolve_loop labelsSelection i labels =
     (if i < length labelsSelection then
        (case find_js (matches_key (labelsSelection ! i)) dummyData of
           Inl e \<Rightarrow> Inl e
         | Inr None \<Rightarrow> resolve_loop labelsSelection (Suc i) labels
         | Inr (Some itm) \<Rightarrow> resolve_loop labelsSelection (Suc i) (labels @ [itm]))
      else Inr labels)"
  by pat_completeness auto
termination
  by (relation "measure (\<lambda>(labelsSelection, i, labels). length labelsSelection - i)") auto

declare resolve_loop.simps [simp del]

text \<open>
  The resolution as the specification words it: each key is looked up by the first entry
  whose lower-cased value equals it, and keys without such an entry are dropped.
\<close>

definition first_match :: "item list \<Rightarrow> jsval \<Rightarrow> item option" where
  "first_match catalog k =
     find (\<lambda>itm. case item_value itm of None \<Rightarrow> False | Some v \<Rightarrow> strict_equals (toLowerCase v) k)
       catalog"

definition resolve_spec :: "item list \<Rightarrow> jsval list \<Rightarrow> item list" where
  "resolve_spec catalog keys = List.map_filter (first_match catalog) keys"

section \<open>Generating the configuration text\<close>

text \<open>
  The inner template literal of line 248, one per label:
  \<^verbatim>\<open><Label key="${label.id}" value="${label.value}"/>\<close>.
\<close>

definition label_decl :: "item \<Rightarrow> string" where
  \<open>label_decl label =
     ''<Label key="'' @ toString_ident (item_id label) @ ''" value="''
       @ toString_value (item_value label) @ ''"/>''\<close>

text \<open>
  An array of strings placed in a template literal is converted by
  \<^verbatim>\<open>Array.prototype.toString\<close>, which joins the elements with a comma.
\<close>

fun array_toString :: "string list \<Rightarrow> string" where
  "array_toString [] = []"
| "array_toString [x] = x"
| "array_toString (x # y # ys) = x @ '','' @ array_toString (y # ys)"

definition getUpdatedConfigLbl :: "item list \<Rightarrow> string" where
  \<open>getUpdatedConfigLbl labels =
     ''<Labels name="tricks" toName="audio" choice="multiple">\<newline>        ''
       @ array_toString (map label_decl labels)
       @ ''\<newline>      </Labels>''\<close>

definition getUpdatedRootConfig :: "string \<Rightarrow> string" where
  \<open>getUpdatedRootConfig lblConfig =
     ''\<newline>    <View>\<newline>      <Header value="Video timeline segmentation via Audio sync trick"/>\<newline>      <Video name="video" value="$video" sync="audio"></Video>\<newline>      ''
       @ lblConfig
       @ ''\<newline>      <Audio name="audio" value="$video" sync="video" zoom="true" speed="true" volume="true"/>\<newline>    </View>\<newline>    ''\<close>

section \<open>Effects\<close>

text \<open>
  Calls of store actions and of the console, which the component makes and whose code is
  not in this file of the repository.
\<close>

datatype effect =
    FetchLabelOptions
  | ReAssignConfigLbl string
  | SaveNewConfig string
  | AddLabel "item list"
  | ConsoleError string
  | UnhandledRejection

section \<open>The document object model\<close>

text \<open>
  The nodes \<^verbatim>\<open>getDefaultOptions\<close> can meet: an element with its name, attributes and
  children, a text node and a comment. Only an element has an \<^verbatim>\<open>attributes\<close>
  property; the other two have no children.
\<close>

type_synonym attrs = "(string \<times> string) list"

datatype node = Element string attrs "node list" | Text string | Comment string

fun nodeName :: "node \<Rightarrow> string" where
  "nodeName (Element n as cs) = n"
| "nodeName (Text t) = ''#text''"
| "nodeName (Comment t) = ''#comment''"

fun childNodes :: "node \<Rightarrow> node list" where
  "childNodes (Element n as cs) = cs"
| "childNodes (Text t) = []"
| "childNodes (Comment t) = []"

fun attributes :: "node \<Rightarrow> attrs option" where
  "attributes (Element n as cs) = Some as"
| "attributes (Text t) = None"
| "attributes (Comment t) = None"

definition getNamedItem :: "attrs \<Rightarrow> string \<Rightarrow> string option" where
  "getNamedItem as name = map_of as name"

fun contains_tag :: "string \<Rightarrow> node \<Rightarrow> bool" where
  "contains_tag nm (Element n as cs) = (n = nm \<or> list_ex (contains_tag nm) cs)"
| "contains_tag nm (Text t) = False"
| "contains_tag nm (Comment t) = False"

section \<open>Reading the label values back: \<^verbatim>\<open>getDefaultOptions\<close>\<close>

text \<open>The loop of lines 204 to 209: the first child whose name is the one looked for.\<close>

fun find_node :: "string \<Rightarrow> node list \<Rightarrow> node option" where
  "find_node nm [] = None"
| "find_node nm (c # cs) = (if nodeName c = nm then Some c else find_node nm cs)"

text \<open>
  The loop of lines 215 to 221: the lower-cased \<^verbatim>\<open>value\<close> attribute of every child
  that has one, in the order of the children.
\<close>

fun label_values :: "node list \<Rightarrow> string list" where
  "label_values [] = []"
| "label_values (childNode # cs) =
     (case attributes childNode of
        None \<Rightarrow> label_values cs
      | Some as \<Rightarrow>
          (case getNamedItem as ''value'' of
             None \<Rightarrow> label_values cs
           | Some v \<Rightarrow> toLowerCase v # label_values cs))"

text \<open>
  \<^verbatim>\<open>getDefaultOptions\<close>, lines 198 to 227. The platform's
  \<^verbatim>\<open>DOMParser.parseFromString\<close> is the argument \<open>parseFromString\<close>; it gives the children
  of the document. Reading \<^verbatim>\<open>childNodes\<close> of \<^verbatim>\<open>undefined\<close> raises. The result is
  the array returned and what was written to the console.
\<close>

definition getDefaultOptions ::
  "(string \<Rightarrow> node list) \<Rightarrow> string \<Rightarrow> error + string list \<times> effect list" where
  "getDefaultOptions parseFromString config =
     (case parseFromString config of
        [] \<Rightarrow> Inl TypeError
      | viewNode # others \<Rightarrow>
          (case find_node ''Labels'' (childNodes viewNode) of
             Some labelsNode \<Rightarrow> Inr (label_values (childNodes labelsNode), [])
           | None \<Rightarrow> Inr ([], [ConsoleError ''Labels node not found in the XML structure.''])))"

section \<open>A parser for the markup the component writes\<close>

text \<open>
  A model of the platform's XML parser on the part of XML 1.0 that the generated
  configuration uses: elements with start, end and empty-element tags, attributes in
  single or double quotes, and character data. Line ends are normalised before parsing
  and white space in attribute values is normalised to spaces, as XML 1.0 prescribes;
  characters outside the \<^verbatim>\<open>Char\<close> production, a repeated attribute name, a
  \<^verbatim>\<open><\<close> in an attribute value, mismatched tags and more than one root element are
  rejected. References, comments, CDATA sections, processing instructions, document type
  declarations and names with a colon or a letter beyond ASCII are outside the model,
  which gives no tree for them.
\<close>

datatype token = StartTag string attrs | EmptyTag string attrs | EndTag string | Chars string

datatype mode =
    Content string
  | TagOpen
  | TagName string
  | AttrSpace string attrs
  | AttrName string attrs string
  | AttrEq string attrs string
  | AttrQuote string attrs string
  | AttrVal string attrs string char string
  | AttrEnd string attrs
  | Slash string attrs
  | EndOpen
  | EndName string
  | EndSpace string

definition is_space :: "char \<Rightarrow> bool" where
  "is_space c = (c \<in> set [CHR 0x20, CHR 0x09, CHR 0x0A, CHR 0x0D])"

text \<open>A character of XML 1.0: tab, line feed, carriage return, or a code from 32 on.\<close>

definition xml_char :: "char \<Rightarrow> bool" where
  "xml_char c =
     (case c of Char b0 b1 b2 b3 b4 b5 b6 b7 \<Rightarrow>
        b5 \<or> b6 \<or> b7 \<or> c \<in> set [CHR 0x09, CHR 0x0A, CHR 0x0D])"

definition name_start :: "char \<Rightarrow> bool" where
  "name_start c =
     (c \<in> set ''ABCDEFGHIJKLMNOPQRSTUVWXYZ_abcdefghijklmnopqrstuvwxyz'')"

definition name_char :: "char \<Rightarrow> bool" where
  "name_char c = (name_start c \<or> c \<in> set ''0123456789-.'')"

definition flush :: "string \<Rightarrow> token list" where
  "flush t = (if t = [] then [] else [Chars t])"

text \<open>One character of input: the tokens completed by it and the next mode.\<close>

fun step :: "mode \<Rightarrow> char \<Rightarrow> (token list \<times> mode) option" where
  "step (Content t) c =
     (if c = CHR ''<'' then Some (flush t, TagOpen)
      else if c = CHR ''&'' then None
      else Some ([], Content (t @ [c])))"
| "step TagOpen c =
     (if c = CHR ''/'' then Some ([], EndOpen)
      else if name_start c then Some ([], TagName [c])
      else None)"
| "step (TagName n) c =
     (if name_char c then Some ([], TagName (n @ [c]))
      else if is_space c then Some ([], AttrSpace n [])
      else if c = CHR ''>'' then Some ([StartTag n []], Content [])
      else if c = CHR ''/'' then Some ([], Slash n [])
      else None)"
| "step (AttrSpace n as) c =
     (if is_space c then Some ([], AttrSpace n as)
      else if c = CHR ''>'' then Some ([StartTag n as], Content [])
      else if c = CHR ''/'' then Some ([], Slash n as)
      else if name_start c then Some ([], AttrName n as [c])
      else None)"
| "step (AttrName n as a) c =
     (if name_char c then Some ([], AttrName n as (a @ [c]))
      else if is_space c then Some ([], AttrEq n as a)
      else if c = CHR ''='' then Some ([], AttrQuote n as a)
      else None)"
| "step (AttrEq n as a) c =
     (if is_space c then Some ([], AttrEq n as a)
      else if c = CHR ''='' then Some ([], AttrQuote n as a)
      else None)"
| "step (AttrQuote n as a) c =
     (if is_space c then Some ([], AttrQuote n as a)
      else if c = CHR 0x22 \<or> c = CHR 0x27 then Some ([], AttrVal n as a c [])
      else None)"
| "step (AttrVal n as a q v) c =
     (if c = q then
        (if a \<in> set (map fst as) then None else Some ([], AttrEnd n (as @ [(a, v)])))
      else if c = CHR ''<'' \<or> c = CHR ''&'' then None
      else Some ([], AttrVal n as a q (v @ [if is_space c then CHR 0x20 else c])))"
| "step (AttrEnd n as) c =
     (if is_space c then Some ([], AttrSpace n as)
      else if c = CHR ''>'' then Some ([StartTag n as], Content [])
      else if c = CHR ''/'' then Some ([], Slash n as)
      else None)"
| "step (Slash n as) c =
     (if c = CHR ''>'' then Some ([EmptyTag n as], Content []) else None)"
| "step EndOpen c =
     (if name_start c then Some ([], EndName [c]) else None)"
| "step (EndName n) c =
     (if name_char c then Some ([], EndName (n @ [c]))
      else if is_space c then Some ([], EndSpace n)
      else if c = CHR ''>'' then Some ([EndTag n], Content [])
      else None)"
| "step (EndSpace n) c =
     (if is_space c then Some ([], EndSpace n)
      else if c = CHR ''>'' then Some ([EndTag n], Content [])
      else None)"

fun run :: "token list \<times> mode \<Rightarrow> string \<Rightarrow> (token list \<times> mode) option" where
  "run s [] = Some s"
| "run s (c # cs) =
     (if xml_char c then
        (case step (snd s) c of
           None \<Rightarrow> None
         | Some (out, m) \<Rightarrow> run (fst s @ out, m) cs)
      else None)"

text \<open>The input must end in character data, outside every tag.\<close>

definition lex :: "string \<Rightarrow> token list option" where
  "lex s =
     (case run ([], Content []) s of
        None \<Rightarrow> None
      | Some (ts, m) \<Rightarrow> (case m of Content t \<Rightarrow> Some (ts @ flush t) | _ \<Rightarrow> None))"

text \<open>Line ends: a carriage return, with a line feed after it or alone, is a line feed.\<close>

fun eol :: "string \<Rightarrow> string" where
  "eol [] = []"
| "eol [c] = [if c = CHR 0x0D then CHR 0x0A else c]"
| "eol (c # d # s) =
     (if c = CHR 0x0D then
        (if d = CHR 0x0A then CHR 0x0A # eol s else CHR 0x0A # eol (d # s))
      else c # eol (d # s))"

text \<open>
  Building the tree: \<open>stack\<close> is the stack of elements whose end tag is awaited, each
  with the nodes that precede it under its parent; \<open>kids\<close> are the finished children
  of the innermost open element.
\<close>

fun build :: "(string \<times> attrs \<times> node list) list \<Rightarrow> node list \<Rightarrow> token list \<Rightarrow> node list option" where
  "build [] kids [] = Some kids"
| "build (f # fs) kids [] = None"
| "build stack kids (Chars t # ts) = build stack (kids @ [Text t]) ts"
| "build stack kids (EmptyTag n as # ts) = build stack (kids @ [Element n as []]) ts"
| "build stack kids (StartTag n as # ts) = build ((n, as, kids) # stack) [] ts"
| "build [] kids (EndTag n # ts) = None"
| "build ((m, as, before) # stack) kids (EndTag n # ts) =
     (if n = m then build stack (before @ [Element m as kids]) ts else None)"

fun is_blank_text :: "node \<Rightarrow> bool" where
  "is_blank_text (Text t) = list_all is_space t"
| "is_blank_text (Element n as cs) = False"
| "is_blank_text (Comment t) = False"

text \<open>A document is one root element, with nothing but white space around it.\<close>

definition root_of :: "node list \<Rightarrow> node option" where
  "root_of nodes =
     (case filter (\<lambda>n. \<not> is_blank_text n) nodes of
        [Element n as cs] \<Rightarrow> Some (Element n as cs)
      | _ \<Rightarrow> None)"

definition xml_parse :: "string \<Rightarrow> node option" where
  "xml_parse s =
     (case lex (eol s) of
        None \<Rightarrow> None
      | Some ts \<Rightarrow> (case build [] [] ts of None \<Rightarrow> None | Some nodes \<Rightarrow> root_of nodes))"

text \<open>
  The document \<^verbatim>\<open>parseFromString\<close> gives when the text is not well-formed: the steps
  of the HTML standard for \<^verbatim>\<open>DOMParser\<close> make a root element
  \<^verbatim>\<open>parsererror\<close>, whose content describes the failure.
\<close>

definition parsererror_document :: "string \<Rightarrow> node list" where
  "parsererror_document msg =
     [Element ''parsererror'' [(''xmlns'', ''http://www.mozilla.org/newlayout/xml/parsererror.xml'')]
        [Text msg]]"

definition DOMParser_parseFromString :: "string \<Rightarrow> node list" where
  "DOMParser_parseFromString s =
     (case xml_parse s of
        Some root \<Rightarrow> [root]
      | None \<Rightarrow> parsererror_document ''XML Parsing Error'')"

section \<open>The component \<^verbatim>\<open>HtxLabels\<close>\<close>

text \<open>
  The fields the component reads from the injected store. The store itself is not part
  of this file of the repository: its actions appear as effects, in the order the
  component calls them.
\<close>

record store =
  config :: string
  labelsData :: "item list"
  labelOptions :: "item list"
  labelOptLoading :: bool
  labelOptErrMsg :: "string option"

text \<open>The two \<^verbatim>\<open>useState\<close> cells of the component.\<close>

record ui =
  openLblSelection :: bool
  labelsSelection :: "jsval list"

text \<open>How the promise returned by \<^verbatim>\<open>saveNewConfig\<close> settles.\<close>

datatype promise = Resolved bool | Rejected

definition handleLabelSelectionChange :: "jsval list \<Rightarrow> ui \<Rightarrow> effect list \<times> ui" where
  "handleLabelSelectionChange v u = ([], u\<lparr>labelsSelection := v\<rparr>)"

definition handleAddLabel :: "ui \<Rightarrow> effect list \<times> ui" where
  "handleAddLabel u = ([], u\<lparr>openLblSelection := True\<rparr>)"

text \<open>
  \<^verbatim>\<open>handleApplySelection\<close>, lines 287 to 299. The store is in scope of the closure and
  is an argument for that reason; the second argument is how the awaited promise of
  \<^verbatim>\<open>saveNewConfig\<close> settles. When it rejects, the statements after the
  \<^verbatim>\<open>await\<close> do not run.
\<close>

definition handleApplySelection :: "store \<Rightarrow> promise \<Rightarrow> ui \<Rightarrow> error + effect list \<times> ui" where
  "handleApplySelection st saved u =
     (case resolve_loop (labelsSelection u) 0 [] of
        Inl e \<Rightarrow> Inl e
      | Inr labels \<Rightarrow>
          (let newConfigLbl = getUpdatedConfigLbl labels;
               call = SaveNewConfig (getUpdatedRootConfig newConfigLbl)
           in case saved of
                Rejected \<Rightarrow> Inr ([call, UnhandledRejection], u)
              | Resolved ok \<Rightarrow>
                  Inr (call # (if ok then [AddLabel labels] else []),
                       u\<lparr>openLblSelection := False\<rparr>)))"

text \<open>
  \<^verbatim>\<open>handleDiscardSelection\<close>, lines 300 to 303; the statement
  \<^verbatim>\<open>setLabelsSelection([])\<close> is commented out in the source. The
  \<^verbatim>\<open>onCancel\<close> handler of the modal (line 314) does the same.
\<close>

definition handleDiscardSelection :: "ui \<Rightarrow> effect list \<times> ui" where
  "handleDiscardSelection u = ([], u\<lparr>openLblSelection := False\<rparr>)"

definition onCancel :: "ui \<Rightarrow> effect list \<times> ui" where
  "onCancel u = ([], u\<lparr>openLblSelection := False\<rparr>)"

subsection \<open>What the rendered dialog disables\<close>

text \<open>
  The white space and line terminators that \<^verbatim>\<open>trim\<close> removes, among the code units
  below 256: tab, line feed, vertical tab, form feed, carriage return, space and the
  no-break space.
\<close>

definition js_whitespace :: "char \<Rightarrow> bool" where
  "js_whitespace c =
     (c \<in> set [CHR 0x09, CHR 0x0A, CHR 0x0B, CHR 0x0C, CHR 0x0D, CHR 0x20, CHR 0xA0])"

definition trim :: "string \<Rightarrow> string" where
  "trim s = rev (dropWhile js_whitespace (rev (dropWhile js_whitespace s)))"

text \<open>
  \<^verbatim>\<open>labelOptErrMsg?.trim() != ""\<close>: for a message that is \<^verbatim>\<open>null\<close> or
  \<^verbatim>\<open>undefined\<close> the left side is \<^verbatim>\<open>undefined\<close>, which is not loosely equal to
  the empty string.
\<close>

definition errMsg_not_blank :: "string option \<Rightarrow> bool" where
  "errMsg_not_blank m = (case m of None \<Rightarrow> True | Some s \<Rightarrow> trim s \<noteq> [])"

text \<open>Line 321: the message is rendered in place of the select.\<close>

definition error_shown :: "store \<Rightarrow> bool" where
  "error_shown st = errMsg_not_blank (labelOptErrMsg st)"

text \<open>Line 342: the \<^verbatim>\<open>disabled\<close> attribute of the button "Apply selection".\<close>

definition apply_disabled :: "store \<Rightarrow> bool" where
  "apply_disabled st = (labelOptLoading st \<or> errMsg_not_blank (labelOptErrMsg st))"

subsection \<open>Mounting the component\<close>

text \<open>
  The initial value of \<^verbatim>\<open>labelsSelection\<close>, line 243:
  \<^verbatim>\<open>labelsData.map(i => (i.value.toLowerCase))\<close>. The arrow function reads the
  property \<^verbatim>\<open>toLowerCase\<close> of the value and returns it uncalled; on a value that is
  \<^verbatim>\<open>null\<close> the read raises.
\<close>

definition toLowerCase_property :: "item \<Rightarrow> error + jsval" where
  "toLowerCase_property i =
     (case item_value i of None \<Rightarrow> Inl TypeError | Some v \<Rightarrow> Inr JFun_toLowerCase)"

fun map_js :: "('a \<Rightarrow> error + 'b) \<Rightarrow> 'a list \<Rightarrow> error + 'b list" where
  "map_js f [] = Inr []"
| "map_js f (x # xs) =
     (case f x of
        Inl e \<Rightarrow> Inl e
      | Inr y \<Rightarrow> (case map_js f xs of Inl e \<Rightarrow> Inl e | Inr ys \<Rightarrow> Inr (y # ys)))"

definition useState_labelsSelection :: "store \<Rightarrow> error + jsval list" where
  "useState_labelsSelection st = map_js toLowerCase_property (labelsData st)"

text \<open>The effect of lines 267 to 275, which runs when \<^verbatim>\<open>labelsData.length\<close> changes.\<close>

definition labelsData_effect ::
  "(string \<Rightarrow> node list) \<Rightarrow> store \<Rightarrow> ui \<Rightarrow> error + effect list \<times> ui" where
  "labelsData_effect parseFromString st u =
     (if length (labelsData st) > 0 then
        Inr ([ReAssignConfigLbl (getUpdatedConfigLbl (labelsData st))], u)
      else
        (case getDefaultOptions parseFromString (config st) of
           Inl e \<Rightarrow> Inl e
         | Inr (existingLabels, logged) \<Rightarrow>
             Inr (logged, u\<lparr>labelsSelection := map JStr existingLabels\<rparr>)))"

text \<open>
  The first render and its effects: the two state cells are initialised, the effect of
  lines 263 to 265 asks for the options, then the effect above runs.
\<close>

definition mount :: "(string \<Rightarrow> node list) \<Rightarrow> store \<Rightarrow> error + effect list \<times> ui" where
  "mount parseFromString st =
     (case useState_labelsSelection st of
        Inl e \<Rightarrow> Inl e
      | Inr sel \<Rightarrow>
          (case labelsData_effect parseFromString st
                  \<lparr>openLblSelection = False, labelsSelection = sel\<rparr> of
             Inl e \<Rightarrow> Inl e
           | Inr (effs, u) \<Rightarrow> Inr (FetchLabelOptions # effs, u)))"

text \<open>
  A later render in which \<^verbatim>\<open>labelsData.length\<close> has changed. The body of the
  component runs again: the argument of \<^verbatim>\<open>useState\<close> at line 243 is evaluated, and
  its value dropped since the cell exists, then the effect of lines 267 to 275 runs.
\<close>

definition rerender :: "(string \<Rightarrow> node list) \<Rightarrow> store \<Rightarrow> ui \<Rightarrow> error + effect list \<times> ui" where
  "rerender parseFromString st u =
     (case useState_labelsSelection st of
        Inl e \<Rightarrow> Inl e
      | Inr dropped \<Rightarrow> labelsData_effect parseFromString st u)"

text \<open>The entry of the empty sentinel: the one whose value is \<^verbatim>\<open>null\<close>.\<close>

definition is_sentinel :: "item \<Rightarrow> bool" where
  "is_sentinel itm = (item_value itm = None)"

section \<open>The model \<^verbatim>\<open>LabelsModel\<close>: \<^verbatim>\<open>afterCreate\<close>\<close>

text \<open>
  A child of the label set, with the fields \<^verbatim>\<open>afterCreate\<close> writes, and the flag
  \<^verbatim>\<open>isEmpty\<close> that \<^verbatim>\<open>setEmpty\<close> raises.
\<close>

record label =
  label_type :: string
  label_value :: "string option"
  background :: "string option"
  isEmpty :: bool

record labels_model =
  allowempty :: bool
  children :: "label list option"

text \<open>
  The snapshot \<^verbatim>\<open>emptyParams\<close> of lines 121 to 125, as the node the tree makes of it.
  \<^verbatim>\<open>defaultStyle.fillcolor\<close> is a constant of \<^verbatim>\<open>core/Constants\<close> and is an
  argument here.
\<close>

definition emptyParams :: "string \<Rightarrow> label" where
  "emptyParams fillcolor =
     \<lparr>label_type = ''label'', label_value = None, background = Some fillcolor, isEmpty = False\<rparr>"

text \<open>
  Modelled from the spec: \<^verbatim>\<open>setEmpty\<close> is an action of the label model, whose code
  is outside \<^verbatim>\<open>Labels.js\<close>.
  The specification's label entry carries a flag for the empty sentinel; the action
  raises it.
\<close>

definition setEmpty :: "label \<Rightarrow> label" where
  "setEmpty c = c\<lparr>isEmpty := True\<rparr>"

text \<open>
  \<^verbatim>\<open>afterCreate\<close>, lines 116 to 136. \<^verbatim>\<open>findLabel\<close> is an action of
  \<^verbatim>\<open>LabelMixin\<close>, whose code is outside \<^verbatim>\<open>Labels.js\<close>, and is an argument here:
  applied to the node and the value looked for, it gives the position of the child it
  finds, which stands for the reference to that child, or nothing.
\<close>

definition afterCreate ::
  "(labels_model \<Rightarrow> string option \<Rightarrow> nat option) \<Rightarrow> string \<Rightarrow> labels_model \<Rightarrow> labels_model" where
  "afterCreate findLabel fillcolor self =
     (if allowempty self then
        (case findLabel self None of
           Some i \<Rightarrow>
             self\<lparr>children := map_option (\<lambda>cs. cs[i := setEmpty (cs ! i)]) (children self)\<rparr>
         | None \<Rightarrow>
             (let cs = (case children self of
                          Some cs \<Rightarrow> emptyParams fillcolor # cs
                        | None \<Rightarrow> [emptyParams fillcolor])
              in self\<lparr>children := Some (cs[0 := setEmpty (cs ! 0)])\<rparr>))
      else self)"

section \<open>The tree of the generated configuration\<close>

text \<open>
  Characters that an attribute value in double quotes holds as they are: characters of
  XML but for the quote, \<^verbatim>\<open><\<close>, \<^verbatim>\<open>&\<close> and the white space that the parser
  turns into a space.
\<close>

definition plain_char :: "char \<Rightarrow> bool" where
  "plain_char c =
     (xml_char c \<and> c \<notin> set [CHR 0x22, CHR ''<'', CHR ''&'', CHR 0x09, CHR 0x0A, CHR 0x0D])"

definition plain :: "string \<Rightarrow> bool" where
  "plain s = list_all plain_char s"

text \<open>An entry whose id and value, as the template writes them, are plain.\<close>

definition plain_item :: "item \<Rightarrow> bool" where
  "plain_item itm =
     (plain (toString_ident (item_id itm)) \<and> plain (toString_value (item_value itm)))"

text \<open>The element and the token that stand for the declaration of one entry.\<close>

definition label_element :: "item \<Rightarrow> node" where
  "label_element itm =
     Element ''Label''
       [(''key'', toString_ident (item_id itm)), (''value'', toString_value (item_value itm))] []"

definition label_token :: "item \<Rightarrow> token" where
  "label_token itm =
     EmptyTag ''Label''
       [(''key'', toString_ident (item_id itm)), (''value'', toString_value (item_value itm))]"

text \<open>The children of the label set: the declarations, with a comma as text between two.\<close>

fun comma_separated :: "node list \<Rightarrow> node list" where
  "comma_separated [] = []"
| "comma_separated [x] = [x]"
| "comma_separated (x # y # ys) = x # Text '','' # comma_separated (y # ys)"

fun comma_tokens :: "token list \<Rightarrow> token list" where
  "comma_tokens [] = []"
| "comma_tokens [x] = [x]"
| "comma_tokens (x # y # ys) = x # Chars '','' # comma_tokens (y # ys)"

text \<open>
  The tree of the generated fragment and of the document around it, with the white space
  of the two templates as text nodes.
\<close>

definition labels_children :: "item list \<Rightarrow> node list" where
  "labels_children entries =
     (if entries = [] then [Text ''\<newline>        \<newline>      '']
      else Text ''\<newline>        '' # comma_separated (map label_element entries)
             @ [Text ''\<newline>      ''])"

definition labels_element :: "item list \<Rightarrow> node" where
  "labels_element entries =
     Element ''Labels'' [(''name'', ''tricks''), (''toName'', ''audio''), (''choice'', ''multiple'')]
       (labels_children entries)"


fun is_element :: "node \<Rightarrow> bool" where
  "is_element (Element n as cs) = True"
| "is_element (Text t) = False"
| "is_element (Comment t) = False"

text \<open>The tokens of the generated fragment.\<close>

definition labels_tokens :: "item list \<Rightarrow> token list" where
  "labels_tokens es =
     StartTag ''Labels'' [(''name'', ''tricks''), (''toName'', ''audio''), (''choice'', ''multiple'')]
       # (if es = [] then [Chars ''\<newline>        \<newline>      '']
          else Chars ''\<newline>        '' # comma_tokens (map label_token es)
                 @ [Chars ''\<newline>      ''])
       @ [EndTag ''Labels'']"

section \<open>Properties of the resolution\<close>

lemma find_js_dummyData: "find_js (matches_key k) dummyData = Inr (first_match dummyData k)"
  by (simp add: dummyData_def first_match_def matches_key_def value_toLowerCase_def)

lemma resolve_loop_done: "\<not> i < length sel \<Longrightarrow> resolve_loop sel i labels = Inr labels"
  by (subst resolve_loop.simps) simp

lemma resolve_loop_step:
  "i < length sel \<Longrightarrow>
   resolve_loop sel i labels =
     (case first_match dummyData (sel ! i) of
        None \<Rightarrow> resolve_loop sel (Suc i) labels
      | Some itm \<Rightarrow> resolve_loop sel (Suc i) (labels @ [itm]))"
  by (subst resolve_loop.simps) (simp add: find_js_dummyData)

lemma resolve_loop_eq:
  "resolve_loop sel i labels = Inr (labels @ resolve_spec dummyData (drop i sel))"
proof (induction "length sel - i" arbitrary: i labels)
  case 0
  then show ?case
    by (simp add: resolve_loop_done resolve_spec_def)
next
  case (Suc n)
  then have lt: "i < length sel" and n: "n = length sel - Suc i"
    by simp_all
  have d: "drop i sel = sel ! i # drop (Suc i) sel"
    using lt by (simp add: Cons_nth_drop_Suc)
  show ?case
    by (cases "first_match dummyData (sel ! i)")
      (simp_all add: resolve_loop_step [OF lt] Suc.hyps(1) [OF n] d resolve_spec_def)
qed

lemma resolve_spec_append:
  "resolve_spec catalog (ks @ ks') = resolve_spec catalog ks @ resolve_spec catalog ks'"
  by (induction ks) (simp_all add: resolve_spec_def split: option.splits)

lemma handleApplySelection_eq:
  "handleApplySelection st saved u =
     (let labels = resolve_spec dummyData (labelsSelection u);
          call = SaveNewConfig (getUpdatedRootConfig (getUpdatedConfigLbl labels))
      in case saved of
           Rejected \<Rightarrow> Inr ([call, UnhandledRejection], u)
         | Resolved ok \<Rightarrow>
             Inr (call # (if ok then [AddLabel labels] else []), u\<lparr>openLblSelection := False\<rparr>))"
  by (simp add: handleApplySelection_def resolve_loop_eq Let_def)

text \<open>
  Claim C10. On confirm the resolved list follows the order of the pending selection
  keys, not that of the catalog, and a key that occurs several times and matches an
  entry gives that entry once per occurrence: the list handed to \<^verbatim>\<open>addLabel\<close> is
  the resolution of the keys one by one, in their order, so an entry occurs in it as often
  as keys resolve to it.
\<close>

theorem resolved_in_selection_order:
  "handleApplySelection st (Resolved True) u =
     Inr ([SaveNewConfig (getUpdatedRootConfig (getUpdatedConfigLbl
             (resolve_spec dummyData (labelsSelection u)))),
           AddLabel (resolve_spec dummyData (labelsSelection u))],
          u\<lparr>openLblSelection := False\<rparr>)
   \<and> resolve_spec dummyData (ks @ ks') = resolve_spec dummyData ks @ resolve_spec dummyData ks'
   \<and> resolve_spec dummyData [k] = (case first_match dummyData k of None \<Rightarrow> [] | Some e \<Rightarrow> [e])
   \<and> count_list (resolve_spec dummyData ks) e
       = length (filter (\<lambda>k. first_match dummyData k = Some e) ks)"
proof -
  have "count_list (resolve_spec dummyData ks) e
       = length (filter (\<lambda>k. first_match dummyData k = Some e) ks)"
    by (induction ks) (auto simp add: resolve_spec_def split: option.splits)
  then show ?thesis
    by (simp add: handleApplySelection_eq resolve_spec_append Let_def)
      (simp add: resolve_spec_def split: option.splits)
qed

text \<open>
  An instance: the second key is unknown and dropped, the first and last are the same and
  give the same entry twice, ahead of and behind an entry that precedes it in the catalog.
\<close>

lemma resolved_example:
  "resolve_loop [JStr ''push_press.up'', JStr ''unknown'', JStr ''air_squat.down'', JStr ''push_press.up''] 0 []
     = Inr [\<lparr>item_id = IdNum 4, item_value = Some ''push_press.up''\<rparr>,
            \<lparr>item_id = IdNum 1, item_value = Some ''air_squat.down''\<rparr>,
            \<lparr>item_id = IdNum 4, item_value = Some ''push_press.up''\<rparr>]"
  by code_simp

section \<open>Properties of the confirm and discard handlers\<close>

lemma resolve_at_A:
  "resolve_spec dummyData [JStr ''a''] = []
   \<and> resolve_spec [\<lparr>item_id = IdNum 1, item_value = Some ''A''\<rparr>] [JStr ''a'']
       = [\<lparr>item_id = IdNum 1, item_value = Some ''A''\<rparr>]"
  by code_simp

text \<open>
  Claim C4. On confirm every pending key is resolved against the fetched catalog
  \<^verbatim>\<open>labelOptions\<close>, first match on the lower-cased value, unmatched keys dropped. The
  handler resolves against the constant \<^verbatim>\<open>dummyData\<close> instead: with the fetched catalog
  holding the one option \<open>A\<close> and the pending selection holding its key \<open>a\<close>, the
  handler saves a configuration without labels and hands the empty list to
  \<^verbatim>\<open>addLabel\<close>, where resolving against the fetched catalog gives the option.
\<close>

theorem apply_ignores_fetched_catalog:
  "handleApplySelection
     \<lparr>config = [], labelsData = [],
      labelOptions = [\<lparr>item_id = IdNum 1, item_value = Some ''A''\<rparr>],
      labelOptLoading = False, labelOptErrMsg = Some []\<rparr>
     (Resolved True)
     \<lparr>openLblSelection = True, labelsSelection = [JStr ''a'']\<rparr>
   = Inr ([SaveNewConfig (getUpdatedRootConfig (getUpdatedConfigLbl [])), AddLabel []],
          \<lparr>openLblSelection = False, labelsSelection = [JStr ''a'']\<rparr>)
   \<and> resolve_spec [\<lparr>item_id = IdNum 1, item_value = Some ''A''\<rparr>] [JStr ''a'']
       = [\<lparr>item_id = IdNum 1, item_value = Some ''A''\<rparr>]"
  by (simp add: handleApplySelection_eq resolve_at_A)

text \<open>
  Claim C2, as amended. When \<^verbatim>\<open>saveNewConfig\<close> resolves to a falsy value,
  \<^verbatim>\<open>addLabel\<close> is not called, so the children of the label set stay as they are, and
  the selection dialog is closed; the dialog is left as it was only when the promise
  rejects.
\<close>

theorem persist_failure_closes_dialog:
  "handleApplySelection st (Resolved False) u =
     Inr ([SaveNewConfig (getUpdatedRootConfig (getUpdatedConfigLbl
             (resolve_spec dummyData (labelsSelection u))))],
          u\<lparr>openLblSelection := False\<rparr>)
   \<and> handleApplySelection st Rejected u =
     Inr ([SaveNewConfig (getUpdatedRootConfig (getUpdatedConfigLbl
             (resolve_spec dummyData (labelsSelection u)))), UnhandledRejection],
          u)"
  by (simp add: handleApplySelection_eq)

text \<open>
  Claim C2 as stated fails: with the dialog open and \<^verbatim>\<open>saveNewConfig\<close> resolving to
  \<^verbatim>\<open>false\<close>, the dialog is closed after the handler.
\<close>

theorem persist_failure_counterexample:
  "map_sum id (openLblSelection \<circ> snd)
     (handleApplySelection
        \<lparr>config = [], labelsData = [], labelOptions = [], labelOptLoading = False,
         labelOptErrMsg = Some []\<rparr>
        (Resolved False)
        \<lparr>openLblSelection = True, labelsSelection = [JStr ''air_squat.up'']\<rparr>)
   = Inr False"
  by (simp add: handleApplySelection_eq)

text \<open>
  Claim C8, as amended. Discarding, by the button or by the modal's cancel, closes the
  dialog and calls no action of the store, so the label set and the catalog are not
  touched; the pending selection is kept, and a dialog opened again shows the edits made
  before the discard.
\<close>

theorem discard_keeps_pending_selection:
  "fst (handleDiscardSelection u) = []
   \<and> openLblSelection (snd (handleDiscardSelection u)) = False
   \<and> labelsSelection (snd (handleDiscardSelection u)) = labelsSelection u
   \<and> fst (onCancel u) = []
   \<and> snd (onCancel u) = snd (handleDiscardSelection u)
   \<and> snd (handleAddLabel (snd (handleDiscardSelection (snd (handleLabelSelectionChange v u)))))
       = \<lparr>openLblSelection = True, labelsSelection = v\<rparr>"
  by (simp add: handleDiscardSelection_def onCancel_def handleAddLabel_def
      handleLabelSelectionChange_def)

text \<open>
  Claim C8 as stated fails: the dialog is open with one key selected, the user adds a
  second key, discards and opens the dialog again; the pending selection still holds the
  second key.
\<close>

theorem discard_counterexample:
  "labelsSelection
     (snd (handleAddLabel (snd (handleDiscardSelection (snd (handleLabelSelectionChange
        [JStr ''air_squat.up'', JStr ''push_press.up'']
        \<lparr>openLblSelection = True, labelsSelection = [JStr ''air_squat.up'']\<rparr>))))))
   = [JStr ''air_squat.up'', JStr ''push_press.up'']"
  by (simp add: handleDiscardSelection_def handleAddLabel_def handleLabelSelectionChange_def)


text \<open>The button is disabled by the expression that shows the message at line 321.\<close>

lemma apply_disabled_error_shown: "apply_disabled st = (labelOptLoading st \<or> error_shown st)"
  by (simp add: apply_disabled_def error_shown_def)



section \<open>Properties of mounting\<close>

text \<open>
  Claim C6. The pending selection is seeded from the lower-cased values of the current
  labels when there are any, and else from the values read out of the configuration. With
  one label in \<^verbatim>\<open>labelsData\<close> the component seeds the selection with a reference to
  the function \<^verbatim>\<open>toLowerCase\<close>, not with the lower-cased value, and opening the dialog
  leaves that in place.
\<close>

theorem mount_seeds_function_references:
  "mount parseFromString
     \<lparr>config = cfg, labelsData = [\<lparr>item_id = IdNum 1, item_value = Some ''air_squat.down''\<rparr>],
      labelOptions = opts, labelOptLoading = False, labelOptErrMsg = Some []\<rparr>
   = Inr ([FetchLabelOptions,
           ReAssignConfigLbl (getUpdatedConfigLbl
             [\<lparr>item_id = IdNum 1, item_value = Some ''air_squat.down''\<rparr>])],
          \<lparr>openLblSelection = False, labelsSelection = [JFun_toLowerCase]\<rparr>)
   \<and> handleAddLabel \<lparr>openLblSelection = False, labelsSelection = [JFun_toLowerCase]\<rparr>
       = ([], \<lparr>openLblSelection = True, labelsSelection = [JFun_toLowerCase]\<rparr>)"
  by (simp add: mount_def useState_labelsSelection_def toLowerCase_property_def
      labelsData_effect_def handleAddLabel_def)

text \<open>Without labels the selection is seeded from the configuration.\<close>

lemma mount_without_labels:
  "labelsData st = [] \<Longrightarrow>
   mount parseFromString st =
     (case getDefaultOptions parseFromString (config st) of
        Inl e \<Rightarrow> Inl e
      | Inr (vals, logged) \<Rightarrow>
          Inr (FetchLabelOptions # logged,
               \<lparr>openLblSelection = False, labelsSelection = map JStr vals\<rparr>))"
  by (simp add: mount_def useState_labelsSelection_def labelsData_effect_def
      split: sum.splits prod.splits)

section \<open>Properties of \<^verbatim>\<open>getDefaultOptions\<close>\<close>

lemma find_node_absent:
  "\<not> list_ex (contains_tag ''Labels'') cs \<Longrightarrow> find_node ''Labels'' cs = None"
proof (induction cs)
  case Nil
  show ?case by simp
next
  case (Cons c cs)
  then show ?case by (cases c) auto
qed

lemma parse_unclosed:
  "DOMParser_parseFromString ''<View>'' = parsererror_document ''XML Parsing Error''"
  by (simp add: DOMParser_parseFromString_def xml_parse_def lex_def xml_char_def is_space_def
      name_start_def name_char_def flush_def root_of_def)

text \<open>
  Claim C9. For a text that cannot be parsed as well-formed markup, for which the parser
  gives the error document, and for a document without any \<^verbatim>\<open>Labels\<close> tag,
  \<^verbatim>\<open>getDefaultOptions\<close> returns the empty array and writes the failure to the console;
  it does not raise.
\<close>

theorem getDefaultOptions_not_found:
  assumes "parseFromString doc = parsererror_document msg
           \<or> (\<exists>d ds. parseFromString doc = d # ds \<and> \<not> contains_tag ''Labels'' d)"
  shows "getDefaultOptions parseFromString doc
         = Inr ([], [ConsoleError ''Labels node not found in the XML structure.''])"
  using assms
proof
  assume "parseFromString doc = parsererror_document msg"
  then show ?thesis
    by (simp add: getDefaultOptions_def parsererror_document_def)
next
  assume "\<exists>d ds. parseFromString doc = d # ds \<and> \<not> contains_tag ''Labels'' d"
  then obtain d ds where p: "parseFromString doc = d # ds" and a: "\<not> contains_tag ''Labels'' d"
    by blast
  from a have "find_node ''Labels'' (childNodes d) = None"
    by (cases d) (simp_all add: find_node_absent)
  with p show ?thesis
    by (simp add: getDefaultOptions_def)
qed

text \<open>
  Witness for claim C9: the text \<^verbatim>\<open><View>\<close>, whose element is never closed, is not
  well-formed; the model of the parser gives the error document for it.
\<close>

theorem getDefaultOptions_not_found_witness:
  "DOMParser_parseFromString ''<View>'' = parsererror_document ''XML Parsing Error''
   \<and> getDefaultOptions DOMParser_parseFromString ''<View>''
       = Inr ([], [ConsoleError ''Labels node not found in the XML structure.''])"
  using getDefaultOptions_not_found [of DOMParser_parseFromString "''<View>''" "''XML Parsing Error''"]
    parse_unclosed
  by simp

section \<open>Properties of the generated configuration\<close>

lemma run_append:
  "run s (a @ b) = (case run s a of None \<Rightarrow> None | Some s' \<Rightarrow> run s' b)"
  by (induction a arbitrary: s) (auto split: option.splits)

lemma run_plain_value:
  "plain v \<Longrightarrow>
   run (ts, AttrVal n as a (CHR 0x22) acc) (v @ r) = run (ts, AttrVal n as a (CHR 0x22) (acc @ v)) r"
proof (induction v arbitrary: acc)
  case Nil
  show ?case by simp
next
  case (Cons c v)
  from Cons.prems have c: "plain_char c" and v: "plain v"
    by (simp_all add: plain_def)
  from c have "xml_char c" "c \<noteq> CHR 0x22" "c \<noteq> CHR ''<''" "c \<noteq> CHR ''&''"
    "(if is_space c then CHR 0x20 else c) = c"
    by (auto simp add: plain_char_def is_space_def)
  then show ?case
    using Cons.IH [OF v, of "acc @ [c]"] by simp
qed

lemma run_label_decl:
  "plain_item itm \<Longrightarrow>
   run (ts, Content t) (label_decl itm @ r) = run (ts @ flush t @ [label_token itm], Content []) r"
  by (simp add: label_decl_def label_token_def plain_item_def run_plain_value
      xml_char_def is_space_def name_start_def name_char_def)

lemma run_decls:
  "list_all plain_item (e # es) \<Longrightarrow>
   run (ts, Content t) (array_toString (label_decl e # map label_decl es) @ r)
     = run (ts @ flush t @ comma_tokens (label_token e # map label_token es), Content []) r"
proof (induction es arbitrary: e ts t)
  case Nil
  then show ?case by (simp add: run_label_decl)
next
  case (Cons e' es)
  from Cons.prems have e: "plain_item e" and r: "list_all plain_item (e' # es)"
    by simp_all
  show ?case
    using Cons.IH [OF r, of "ts @ flush t @ [label_token e]" "'',''"]
    by (simp add: run_label_decl [OF e] xml_char_def flush_def)
qed

lemma build_comma_tokens:
  "build st kids (comma_tokens (map label_token es) @ ts)
     = build st (kids @ comma_separated (map label_element es)) ts"
proof (induction es arbitrary: kids rule: induct_list012)
  case 1
  show ?case by simp
next
  case (2 e)
  show ?case by (simp add: label_token_def label_element_def)
next
  case (3 e e' es)
  show ?case
    using "3.IH"(2) [of "kids @ [label_element e, Text '','']"]
    by (simp add: label_token_def label_element_def)
qed


lemma elements_comma_separated:
  "filter is_element (comma_separated (map label_element es)) = map label_element es"
  by (induction es rule: induct_list012) (simp_all add: label_element_def)

lemma eol_without_CR: "CHR 0x0D \<notin> set s \<Longrightarrow> eol s = s"
  by (induction s rule: eol.induct) auto

lemma plain_no_CR: "plain s \<Longrightarrow> CHR 0x0D \<notin> set s"
  by (induction s) (auto simp add: plain_def plain_char_def)

lemma decls_no_CR:
  "list_all plain_item es \<Longrightarrow> CHR 0x0D \<notin> set (array_toString (map label_decl es))"
  by (induction es rule: induct_list012)
    (auto simp add: label_decl_def plain_item_def dest: plain_no_CR)

lemmas char_tests = xml_char_def is_space_def name_start_def name_char_def flush_def

lemma fragment_no_CR:
  "list_all plain_item es \<Longrightarrow> CHR 0x0D \<notin> set (getUpdatedConfigLbl es)"
  by (simp add: getUpdatedConfigLbl_def decls_no_CR)


lemma lex_fragment:
  assumes "list_all plain_item es"
  shows "run (ts, Content t) (getUpdatedConfigLbl es @ r)
         = run (ts @ flush t
                  @ StartTag ''Labels'' [(''name'', ''tricks''), (''toName'', ''audio''), (''choice'', ''multiple'')]
                  # (if es = [] then [Chars ''\<newline>        \<newline>      '']
                     else Chars ''\<newline>        '' # comma_tokens (map label_token es)
                            @ [Chars ''\<newline>      ''])
                  @ [EndTag ''Labels''], Content []) r"
proof (cases es)
  case Nil
  then show ?thesis
    by (simp add: getUpdatedConfigLbl_def char_tests)
next
  case (Cons e es')
  with assms have p: "list_all plain_item (e # es')"
    by simp
  show ?thesis
    unfolding Cons
    by (simp add: getUpdatedConfigLbl_def run_decls [OF p] char_tests)
qed

lemma run_fragment:
  "list_all plain_item es \<Longrightarrow>
   run (ts, Content t) (getUpdatedConfigLbl es @ r)
     = run (ts @ flush t @ labels_tokens es, Content []) r"
  using lex_fragment [of es ts t r] by (simp add: labels_tokens_def)

lemma build_labels_tokens:
  "build st kids (labels_tokens es @ ts) = build st (kids @ [labels_element es]) ts"
  by (simp add: labels_tokens_def labels_element_def labels_children_def build_comma_tokens)

lemma parse_fragment:
  assumes "list_all plain_item es"
  shows "xml_parse (getUpdatedConfigLbl es) = Some (labels_element es)"
proof -
  have "run ([], Content []) (getUpdatedConfigLbl es @ []) = Some (labels_tokens es, Content [])"
    using assms by (simp only: run_fragment) (simp add: flush_def)
  then have "lex (getUpdatedConfigLbl es) = Some (labels_tokens es @ [])"
    by (simp add: lex_def flush_def)
  moreover have "build [] [] (labels_tokens es @ []) = Some [labels_element es]"
    by (simp only: build_labels_tokens) simp
  ultimately show ?thesis
    using assms
    by (simp add: xml_parse_def eol_without_CR fragment_no_CR root_of_def labels_element_def)
qed


text \<open>
  An id that is a number is written in plain characters, whatever the number.
\<close>

lemma digit_char_plain: "d < 10 \<Longrightarrow> plain_char (digit_char d)"
proof -
  assume "d < 10"
  then have "d \<in> {0, 1, 2, 3, 4, 5, 6, 7, 8, 9}"
    by auto
  then show ?thesis
    by (auto simp add: digit_char_def plain_char_def xml_char_def)
qed

lemma string_of_nat_plain: "plain (string_of_nat n)"
proof (induction n rule: string_of_nat.induct)
  case (1 n)
  show ?case
  proof (cases "n < 10")
    case True
    then show ?thesis
      by (subst string_of_nat.simps) (simp add: plain_def digit_char_plain)
  next
    case False
    with "1.IH" have "plain (string_of_nat (n div 10))"
      by simp
    with False show ?thesis
      by (subst string_of_nat.simps) (simp add: plain_def digit_char_plain)
  qed
qed

lemma numeric_id_plain: "plain (string_of_int i)"
  using string_of_nat_plain [of "nat (- i)"] string_of_nat_plain [of "nat i"]
  by (simp add: string_of_int_def plain_def plain_char_def xml_char_def)


lemma two_entries_plain:
  "list_all plain_item
     [\<lparr>item_id = IdNum 1, item_value = Some ''Brand''\<rparr>,
      \<lparr>item_id = IdStr ''p2'', item_value = Some ''Product''\<rparr>]"
  by (simp add: plain_item_def numeric_id_plain) (simp add: plain_def plain_char_def xml_char_def)

text \<open>
  No sentinel reaches \<^verbatim>\<open>getUpdatedConfigLbl\<close>: the entries resolved on confirm are
  entries of \<^verbatim>\<open>dummyData\<close>, and a render with a sentinel in \<^verbatim>\<open>labelsData\<close> raises
  at line 243, before the effect that generates the fragment.
\<close>

lemma first_match_in_catalog: "first_match catalog k = Some e \<Longrightarrow> e \<in> set catalog"
  by (auto simp add: first_match_def find_Some_iff)

lemma resolve_spec_subset: "set (resolve_spec catalog keys) \<subseteq> set catalog"
  by (induction keys)
    (auto simp add: resolve_spec_def split: option.splits dest: first_match_in_catalog)

lemma resolved_no_sentinel: "\<not> list_ex is_sentinel (resolve_spec dummyData keys)"
proof -
  have "\<not> list_ex is_sentinel dummyData"
    by (simp add: dummyData_def is_sentinel_def)
  with resolve_spec_subset [of dummyData keys] show ?thesis
    by (auto simp add: list_ex_iff)
qed

lemma map_js_sentinel:
  "list_ex is_sentinel xs \<Longrightarrow> map_js toLowerCase_property xs = Inl TypeError"
proof (induction xs)
  case Nil
  then show ?case by simp
next
  case (Cons x xs)
  show ?case
  proof (cases "is_sentinel x")
    case True
    then show ?thesis
      by (simp add: is_sentinel_def toLowerCase_property_def)
  next
    case False
    with Cons.prems have "list_ex is_sentinel xs"
      by simp
    then have "map_js toLowerCase_property xs = Inl TypeError"
      by (rule Cons.IH)
    moreover from False have "toLowerCase_property x = Inr JFun_toLowerCase"
      by (cases "item_value x") (simp_all add: is_sentinel_def toLowerCase_property_def)
    ultimately show ?thesis
      by simp
  qed
qed

lemma useState_sentinel:
  "list_ex is_sentinel (labelsData st) \<Longrightarrow> useState_labelsSelection st = Inl TypeError"
  by (simp add: useState_labelsSelection_def map_js_sentinel)

lemma two_entries_no_sentinel:
  "\<not> list_ex is_sentinel
     [\<lparr>item_id = IdNum 1, item_value = Some ''Brand''\<rparr>,
      \<lparr>item_id = IdStr ''p2'', item_value = Some ''Product''\<rparr>]"
  by (simp add: is_sentinel_def)

text \<open>
  Claim C5, as amended. For entries whose ids and values are written in plain
  characters, the generated fragment is the \<^verbatim>\<open>Labels\<close> tag with the attributes
  \<^verbatim>\<open>name="tricks" toName="audio" choice="multiple"\<close>, and its child elements are
  exactly one \<^verbatim>\<open>Label\<close> declaration per entry, in the order of the entries, each with
  the entry's id as \<^verbatim>\<open>key\<close> and its value as \<^verbatim>\<open>value\<close>. No entry of the empty
  sentinel is emitted into a fragment: none is among the entries resolved on confirm, and
  with one in \<^verbatim>\<open>labelsData\<close> the render raises before a fragment is generated.
\<close>

theorem fragment_declares_each_entry:
  assumes "list_all plain_item entries" and "\<not> list_ex is_sentinel entries"
  shows "xml_parse (getUpdatedConfigLbl entries)
           = Some (Element ''Labels''
                     [(''name'', ''tricks''), (''toName'', ''audio''), (''choice'', ''multiple'')]
                     (labels_children entries))
         \<and> filter is_element (labels_children entries) = map label_element entries
         \<and> \<not> list_ex is_sentinel (resolve_spec dummyData keys)
         \<and> (list_ex is_sentinel (labelsData st) \<longrightarrow> mount parseFromString st = Inl TypeError)
         \<and> (list_ex is_sentinel (labelsData st) \<longrightarrow> rerender parseFromString st u = Inl TypeError)"
  using assms(1)
  by (simp add: parse_fragment labels_element_def [symmetric] resolved_no_sentinel
      mount_def rerender_def useState_sentinel)
    (simp add: labels_children_def elements_comma_separated)

text \<open>
  Witness for claim C5: two entries, one with a number and one with a string as id.
\<close>

theorem fragment_declares_each_entry_witness:
  "list_all plain_item
     [\<lparr>item_id = IdNum 1, item_value = Some ''Brand''\<rparr>,
      \<lparr>item_id = IdStr ''p2'', item_value = Some ''Product''\<rparr>]
   \<and> \<not> list_ex is_sentinel
     [\<lparr>item_id = IdNum 1, item_value = Some ''Brand''\<rparr>,
      \<lparr>item_id = IdStr ''p2'', item_value = Some ''Product''\<rparr>]
   \<and> xml_parse (getUpdatedConfigLbl
        [\<lparr>item_id = IdNum 1, item_value = Some ''Brand''\<rparr>,
         \<lparr>item_id = IdStr ''p2'', item_value = Some ''Product''\<rparr>])
     = Some (Element ''Labels''
               [(''name'', ''tricks''), (''toName'', ''audio''), (''choice'', ''multiple'')]
               [Text ''\<newline>        '',
                Element ''Label'' [(''key'', ''1''), (''value'', ''Brand'')] [],
                Text '','',
                Element ''Label'' [(''key'', ''p2''), (''value'', ''Product'')] [],
                Text ''\<newline>      ''])"
  using fragment_declares_each_entry [OF two_entries_plain two_entries_no_sentinel]
    two_entries_plain two_entries_no_sentinel
  by (simp add: labels_children_def label_element_def string_of_int_def string_of_nat.simps
      digit_char_def)

text \<open>
  Claim C5 as stated fails: \<^verbatim>\<open>labelsData\<close> holds one entry, whose value has a double
  quote and markup in it; the component mounts, generates the fragment of that entry and
  hands it to \<^verbatim>\<open>reAssignConfigLbl\<close>, and the fragment declares two labels, neither
  with the value of the entry.
\<close>

theorem fragment_injection_counterexample:
  \<open>xml_parse (getUpdatedConfigLbl
      [\<lparr>item_id = IdNum 1, item_value = Some ''x"/><Label key="9" value="y''\<rparr>])
   = Some (Element ''Labels''
             [(''name'', ''tricks''), (''toName'', ''audio''), (''choice'', ''multiple'')]
             [Text ''\<newline>        '',
              Element ''Label'' [(''key'', ''1''), (''value'', ''x'')] [],
              Element ''Label'' [(''key'', ''9''), (''value'', ''y'')] [],
              Text ''\<newline>      ''])
   \<and> mount DOMParser_parseFromString
       \<lparr>config = [],
        labelsData = [\<lparr>item_id = IdNum 1, item_value = Some ''x"/><Label key="9" value="y''\<rparr>],
        labelOptions = [], labelOptLoading = False, labelOptErrMsg = Some []\<rparr>
     = Inr ([FetchLabelOptions,
             ReAssignConfigLbl (getUpdatedConfigLbl
               [\<lparr>item_id = IdNum 1, item_value = Some ''x"/><Label key="9" value="y''\<rparr>])],
            \<lparr>openLblSelection = False, labelsSelection = [JFun_toLowerCase]\<rparr>)\<close>
proof -
  have \<open>xml_parse (getUpdatedConfigLbl
      [\<lparr>item_id = IdNum 1, item_value = Some ''x"/><Label key="9" value="y''\<rparr>])
   = Some (Element ''Labels''
             [(''name'', ''tricks''), (''toName'', ''audio''), (''choice'', ''multiple'')]
             [Text ''\<newline>        '',
              Element ''Label'' [(''key'', ''1''), (''value'', ''x'')] [],
              Element ''Label'' [(''key'', ''9''), (''value'', ''y'')] [],
              Text ''\<newline>      ''])\<close>
    by code_simp
  then show ?thesis
    by (simp add: mount_def useState_labelsSelection_def toLowerCase_property_def
        labelsData_effect_def)
qed





section \<open>Properties of \<^verbatim>\<open>afterCreate\<close>\<close>



text \<open>Without the flag \<^verbatim>\<open>allowempty\<close> nothing changes.\<close>

lemma afterCreate_not_allowempty:
  "\<not> allowempty self \<Longrightarrow> afterCreate findLabel fillcolor self = self"
  by (simp add: afterCreate_def)


end
